theory Spec2Isabelle
  imports Main
begin

section \<open>Objects, exceptions and the world outside the connection\<close>

text \<open>
  The module \<^verbatim>\<open>google/cloud/bigquery/dbapi/connection.py\<close> holds the class
  \<^verbatim>\<open>Connection\<close> and the function \<^verbatim>\<open>connect\<close>. A connection talks to three kinds of
  collaborator objects: the REST client, the BigQuery Storage client and the cursors it
  hands out. Objects are references; what a collaborator does when it is called is logged
  in a trace, so that "the connection invoked close on client 3" is a statement about
  the trace.
\<close>

type_synonym ref = nat

text \<open>
  Exceptions are values. \<open>ClosedConnectionError\<close> is the error of the closed-connection
  guard and carries the guard's message; \<open>AttributeError\<close> is what Python raises for
  \<^verbatim>\<open>None.transport\<close>; \<open>CollaboratorError\<close> stands for whatever a client or a cursor
  raises from its own \<^verbatim>\<open>close()\<close>.
\<close>

datatype exn =
    ClosedConnectionError string
  | AttributeError string
  | CollaboratorError string

datatype event =
    ClientConstructed ref         \<comment> \<open>\<^verbatim>\<open>bigquery.Client()\<close> returned this object\<close>
  | FactoryCalled ref             \<comment> \<open>\<^verbatim>\<open>client._create_bqstorage_client()\<close> was called on this client\<close>
  | ClientClose ref               \<comment> \<open>\<^verbatim>\<open>client.close()\<close> was called\<close>
  | ChannelClose ref              \<comment> \<open>\<^verbatim>\<open>bqstorage_client.transport.channel.close()\<close> was called\<close>
  | CursorConstructed ref ref     \<comment> \<open>\<^verbatim>\<open>cursor.Cursor(connection)\<close> returned this cursor\<close>
  | CursorClose ref               \<comment> \<open>\<^verbatim>\<open>cursor_.close()\<close> was called\<close>

text \<open>
  The world: the trace of calls made on collaborators (oldest first), the allocator of
  object references, and the cursor objects that are still alive, each with the
  connection it was constructed for. A cursor that loses its last strong reference is
  reclaimed: it leaves \<open>cursor_heap\<close>.
\<close>

record world =
  trace :: "event list"
  next_ref :: ref
  cursor_heap :: "ref \<rightharpoonup> ref"

text \<open>
  The behaviour of the collaborators, which the connection does not control: whether the
  storage-client factory of a client succeeds, and whether a \<^verbatim>\<open>close()\<close> call returns
  (\<open>None\<close>) or raises (\<open>Some e\<close>).
\<close>

record env =
  factory_ok :: "ref \<Rightarrow> bool"
  client_close_raises :: "ref \<Rightarrow> exn option"
  channel_close_raises :: "ref \<Rightarrow> exn option"
  cursor_close_raises :: "ref \<Rightarrow> exn option"

definition log_event :: "event \<Rightarrow> world \<Rightarrow> world" where
  "log_event e w = w\<lparr>trace := trace w @ [e]\<rparr>"

definition new_events :: "world \<Rightarrow> world \<Rightarrow> event list" where
  "new_events w w' = drop (length (trace w)) (trace w')"

definition reclaim :: "ref \<Rightarrow> world \<Rightarrow> world" where
  "reclaim k w = w\<lparr>cursor_heap := (cursor_heap w)(k := None)\<rparr>"

subsection \<open>Collaborators that are not part of this module\<close>

text \<open>
  Modelled from the spec: \<^verbatim>\<open>bigquery.Client()\<close>, whose class is defined outside this
  module. The spec: "construct a default one using environment-inferred
  credentials/configuration". It returns a new client object.
\<close>

definition bigquery_Client :: "world \<Rightarrow> ref \<times> world" where
  "bigquery_Client w =
     (next_ref w, (log_event (ClientConstructed (next_ref w)) w)\<lparr>next_ref := Suc (next_ref w)\<rparr>)"

text \<open>
  Modelled from the spec: \<^verbatim>\<open>client._create_bqstorage_client()\<close>, a method of the client
  class. The spec: "this call must not raise - any instantiation failure is caught and
  surfaced only as a non-fatal warning by that factory capability"; the result is a new
  storage client, or \<open>None\<close> when instantiation failed.
\<close>

definition create_bqstorage_client :: "env \<Rightarrow> ref \<Rightarrow> world \<Rightarrow> ref option \<times> world" where
  "create_bqstorage_client env cl w =
     (let w1 = log_event (FactoryCalled cl) w
      in if factory_ok env cl
         then (Some (next_ref w1), w1\<lparr>next_ref := Suc (next_ref w1)\<rparr>)
         else (None, w1))"

text \<open>
  Modelled from the spec: \<^verbatim>\<open>cursor.Cursor(connection)\<close>, the cursor class of the
  sibling module. The spec: "constructs a new cursor bound to this connection". The new
  object is alive when it is returned (the caller holds it).
\<close>

definition Cursor :: "ref \<Rightarrow> world \<Rightarrow> ref \<times> world" where
  "Cursor conn w =
     (next_ref w,
      (log_event (CursorConstructed (next_ref w) conn) w)
        \<lparr>next_ref := Suc (next_ref w), cursor_heap := (cursor_heap w)(next_ref w \<mapsto> conn)\<rparr>)"

text \<open>
  The three \<^verbatim>\<open>close()\<close> calls the connection makes. Each is logged when it is made and
  then returns or raises as the collaborator decides.
\<close>

definition call_client_close :: "env \<Rightarrow> ref \<Rightarrow> world \<Rightarrow> exn option \<times> world" where
  "call_client_close env cl w = (client_close_raises env cl, log_event (ClientClose cl) w)"

definition call_channel_close :: "env \<Rightarrow> ref \<Rightarrow> world \<Rightarrow> exn option \<times> world" where
  "call_channel_close env b w = (channel_close_raises env b, log_event (ChannelClose b) w)"

definition call_cursor_close :: "env \<Rightarrow> ref \<Rightarrow> world \<Rightarrow> exn option \<times> world" where
  "call_cursor_close env k w = (cursor_close_raises env k, log_event (CursorClose k) w)"

subsection \<open>The weak set of cursors\<close>

text \<open>
  \<^verbatim>\<open>weakref.WeakSet\<close>: the set holds references that do not keep their objects alive.
  Adding an object that is already a member changes nothing; iterating yields the members
  that are still alive. The order of iteration is the order of the list; Python leaves
  it unspecified, and no theorem below depends on which order it is.
\<close>

definition weakset_add :: "ref list \<Rightarrow> ref \<Rightarrow> ref list" where
  "weakset_add xs k = (if k \<in> set xs then xs else xs @ [k])"

definition weakset_iter :: "world \<Rightarrow> ref list \<Rightarrow> ref list" where
  "weakset_iter w xs = filter (\<lambda>k. cursor_heap w k \<noteq> None) xs"

section \<open>The class Connection\<close>

text \<open>
  The attributes of a \<^verbatim>\<open>Connection\<close> object, named as in the source without the
  leading underscore. \<open>self\<close> is the identity of the object itself.
\<close>

record connection =
  self :: ref
  client :: ref
  bqstorage_client :: "ref option"
  owns_client :: bool
  owns_bqstorage_client :: bool
  closed :: bool
  cursors_created :: "ref list"

text \<open>
  \<^verbatim>\<open>Connection(client, bqstorage_client)\<close>: a new object, then \<^verbatim>\<open>__init__\<close>. Both
  arguments are optional (\<open>None\<close> when omitted).
\<close>

definition Connection :: "env \<Rightarrow> ref option \<Rightarrow> ref option \<Rightarrow> world \<Rightarrow> connection \<times> world" where
  "Connection env client_arg bqstorage_arg w0 =
     (let self_ref = next_ref w0;
          w = w0\<lparr>next_ref := Suc (next_ref w0)\<rparr>;
          (cl, owns_cl, w1) =
             (case client_arg of
                None \<Rightarrow> (let (c, w') = bigquery_Client w in (c, True, w'))
              | Some c \<Rightarrow> (c, False, w));
          (bq, owns_bq, w2) =
             (case bqstorage_arg of
                None \<Rightarrow> (let (b, w') = create_bqstorage_client env cl w1 in (b, b \<noteq> None, w'))
              | Some b \<Rightarrow> (Some b, False, w1))
      in (\<lparr>self = self_ref, client = cl, bqstorage_client = bq,
           owns_client = owns_cl, owns_bqstorage_client = owns_bq,
           closed = False, cursors_created = []\<rparr>, w2))"

text \<open>The loop \<^verbatim>\<open>for cursor_ in self._cursors_created: cursor_.close()\<close>, over the
  members the iteration yields. An exception leaves the loop.\<close>

fun close_cursors :: "env \<Rightarrow> ref list \<Rightarrow> world \<Rightarrow> exn option \<times> world" where
  "close_cursors env [] w = (None, w)"
| "close_cursors env (k # ks) w =
     (case call_cursor_close env k w of
        (Some e, w') \<Rightarrow> (Some e, w')
      | (None, w') \<Rightarrow> close_cursors env ks w')"

text \<open>
  The body of \<^verbatim>\<open>def close(self)\<close>. The result carries the connection and the world as
  they are when the method returns or raises: an assignment made before an exception
  stays made.
\<close>

definition close :: "env \<Rightarrow> connection \<Rightarrow> world \<Rightarrow> (exn + unit) \<times> connection \<times> world" where
  "close env c0 w =
     (let c = c0\<lparr>closed := True\<rparr>
      in case (if owns_client c then call_client_close env (client c) w else (None, w)) of
           (Some e, w1) \<Rightarrow> (Inl e, c, w1)
         | (None, w1) \<Rightarrow>
             (case (if owns_bqstorage_client c
                    then (case bqstorage_client c of
                            None \<Rightarrow> (Some (AttributeError ''transport''), w1)
                          | Some b \<Rightarrow> call_channel_close env b w1)
                    else (None, w1)) of
                (Some e, w2) \<Rightarrow> (Inl e, c, w2)
              | (None, w2) \<Rightarrow>
                  (case close_cursors env (weakset_iter w2 (cursors_created c)) w2 of
                     (Some e, w3) \<Rightarrow> (Inl e, c, w3)
                   | (None, w3) \<Rightarrow> (Inr (), c, w3))))"

text \<open>The body of \<^verbatim>\<open>def commit(self)\<close>: a docstring and nothing else.\<close>

definition commit :: "connection \<Rightarrow> world \<Rightarrow> (exn + unit) \<times> connection \<times> world" where
  "commit c w = (Inr (), c, w)"

text \<open>The body of \<^verbatim>\<open>def cursor(self)\<close>.\<close>

definition cursor :: "connection \<Rightarrow> world \<Rightarrow> (exn + ref) \<times> connection \<times> world" where
  "cursor c w =
     (let (new_cursor, w1) = Cursor (self c) w
      in (Inr new_cursor, c\<lparr>cursors_created := weakset_add (cursors_created c) new_cursor\<rparr>, w1))"

subsection \<open>The closed-connection guard\<close>

text \<open>
  Modelled from the spec: the class decorator \<^verbatim>\<open>_helpers.raise_on_closed\<close>, defined in
  the sibling module \<^verbatim>\<open>_helpers\<close>. The spec: "Every public operation on Connection
  except the constructor is guarded: if closed is true at call time, the operation fails
  immediately with a dedicated operation-on-closed-connection error instead of
  performing any work, and no side effects occur. This guard must apply uniformly to
  close(), commit(), and cursor()". The message is the decorator's argument in the source.
\<close>

definition raise_on_closed ::
  "string \<Rightarrow> (connection \<Rightarrow> world \<Rightarrow> (exn + 'a) \<times> connection \<times> world)
     \<Rightarrow> connection \<Rightarrow> world \<Rightarrow> (exn + 'a) \<times> connection \<times> world" where
  "raise_on_closed exc_msg method c w =
     (if closed c then (Inl (ClosedConnectionError exc_msg), c, w) else method c w)"

definition closed_message :: string where
  "closed_message = ''Operating on a closed connection.''"

text \<open>The public methods of the decorated class: what a caller's \<^verbatim>\<open>conn.close()\<close>,
  \<^verbatim>\<open>conn.commit()\<close> and \<^verbatim>\<open>conn.cursor()\<close> run.\<close>

definition Connection_close :: "env \<Rightarrow> connection \<Rightarrow> world \<Rightarrow> (exn + unit) \<times> connection \<times> world" where
  "Connection_close env = raise_on_closed closed_message (close env)"

definition Connection_commit :: "connection \<Rightarrow> world \<Rightarrow> (exn + unit) \<times> connection \<times> world" where
  "Connection_commit = raise_on_closed closed_message commit"

definition Connection_cursor :: "connection \<Rightarrow> world \<Rightarrow> (exn + ref) \<times> connection \<times> world" where
  "Connection_cursor = raise_on_closed closed_message cursor"

section \<open>The function connect\<close>

definition connect :: "env \<Rightarrow> ref option \<Rightarrow> ref option \<Rightarrow> world \<Rightarrow> connection \<times> world" where
  "connect env client_arg bqstorage_arg w = Connection env client_arg bqstorage_arg w"

section \<open>Callers\<close>

text \<open>
  What a program holding a connection can do with it, one step at a time: call one of the
  public methods (an exception is caught and the program goes on), or drop its last
  reference to a cursor, which reclaims it.
\<close>

datatype step = Close | Commit | NewCursor | Reclaim ref

fun perform :: "env \<Rightarrow> step \<Rightarrow> connection \<times> world \<Rightarrow> connection \<times> world" where
  "perform env Close (c, w) = snd (Connection_close env c w)"
| "perform env Commit (c, w) = snd (Connection_commit c w)"
| "perform env NewCursor (c, w) = snd (Connection_cursor c w)"
| "perform env (Reclaim k) (c, w) = (c, reclaim k w)"

fun run :: "env \<Rightarrow> step list \<Rightarrow> connection \<times> world \<Rightarrow> connection \<times> world" where
  "run env [] s = s"
| "run env (st # sts) s = run env sts (perform env st s)"

text \<open>Concrete collaborators and worlds for the worked examples.\<close>

definition quiet_env :: env where
  "quiet_env = \<lparr>factory_ok = (\<lambda>_. True), client_close_raises = (\<lambda>_. None),
                 channel_close_raises = (\<lambda>_. None), cursor_close_raises = (\<lambda>_. None)\<rparr>"

definition failing_client_env :: env where
  "failing_client_env = \<lparr>factory_ok = (\<lambda>_. True),
                 client_close_raises = (\<lambda>_. Some (CollaboratorError ''transport down'')),
                 channel_close_raises = (\<lambda>_. None), cursor_close_raises = (\<lambda>_. None)\<rparr>"

definition no_storage_env :: env where
  "no_storage_env = \<lparr>factory_ok = (\<lambda>_. False), client_close_raises = (\<lambda>_. None),
                 channel_close_raises = (\<lambda>_. None), cursor_close_raises = (\<lambda>_. None)\<rparr>"

definition world0 :: world where
  "world0 = \<lparr>trace = [], next_ref = 0, cursor_heap = Map.empty\<rparr>"

definition owned_connection :: connection where
  "owned_connection = \<lparr>self = 0, client = 1, bqstorage_client = Some 2, owns_client = True,
      owns_bqstorage_client = True, closed = False, cursors_created = []\<rparr>"

definition owned_world :: world where
  "owned_world = \<lparr>trace = [ClientConstructed 1, FactoryCalled 1], next_ref = 3,
      cursor_heap = Map.empty\<rparr>"

definition stale_cursor_env :: env where
  "stale_cursor_env = \<lparr>factory_ok = (\<lambda>_. True), client_close_raises = (\<lambda>_. None),
      channel_close_raises = (\<lambda>_. None),
      cursor_close_raises = (\<lambda>k. if k = 3 then Some (CollaboratorError ''cursor gone'') else None)\<rparr>"

definition two_cursors_connection :: connection where
  "two_cursors_connection = owned_connection\<lparr>cursors_created := [3, 4]\<rparr>"

definition two_cursors_world :: world where
  "two_cursors_world = \<lparr>trace = [ClientConstructed 1, FactoryCalled 1,
        CursorConstructed 3 0, CursorConstructed 4 0], next_ref = 5,
      cursor_heap = [3 \<mapsto> 0, 4 \<mapsto> 0]\<rparr>"

definition supplied_connection :: connection where
  "supplied_connection = \<lparr>self = 0, client = 7, bqstorage_client = Some 1, owns_client = False,
      owns_bqstorage_client = True, closed = False, cursors_created = []\<rparr>"

definition supplied_world :: world where
  "supplied_world = \<lparr>trace = [FactoryCalled 7], next_ref = 2, cursor_heap = Map.empty\<rparr>"

section \<open>Basic facts\<close>

lemma trace_log_event [simp]: "trace (log_event e w) = trace w @ [e]"
  by (simp add: log_event_def)

lemma next_ref_log_event [simp]: "next_ref (log_event e w) = next_ref w"
  by (simp add: log_event_def)

lemma cursor_heap_log_event [simp]: "cursor_heap (log_event e w) = cursor_heap w"
  by (simp add: log_event_def)

lemma new_events_append: "trace w' = trace w @ evs \<Longrightarrow> new_events w w' = evs"
  by (simp add: new_events_def)

section \<open>The guard and the cascade\<close>

lemma guard_closed:
  "closed c \<Longrightarrow> raise_on_closed m f c w = (Inl (ClosedConnectionError m), c, w)"
  by (simp add: raise_on_closed_def)

lemma guard_open:
  "\<not> closed c \<Longrightarrow> raise_on_closed m f c w = f c w"
  by (simp add: raise_on_closed_def)

lemma close_cursors_quiet:
  "\<forall>k\<in>set ks. cursor_close_raises env k = None \<Longrightarrow>
   close_cursors env ks w = (None, w\<lparr>trace := trace w @ map CursorClose ks\<rparr>)"
  by (induction ks arbitrary: w) (simp_all add: call_cursor_close_def log_event_def)

lemma close_cursors_frame:
  "close_cursors env ks w = (r, w') \<Longrightarrow>
   \<exists>evs. w' = w\<lparr>trace := trace w @ evs\<rparr> \<and> set evs \<subseteq> CursorClose ` set ks"
proof (induction ks arbitrary: w)
  case Nil
  then show ?case by simp
next
  case (Cons k ks)
  show ?case
  proof (cases "cursor_close_raises env k")
    case None
    with Cons.prems have "close_cursors env ks (log_event (CursorClose k) w) = (r, w')"
      by (simp add: call_cursor_close_def)
    from Cons.IH[OF this] obtain evs where
      "w' = (log_event (CursorClose k) w)\<lparr>trace := trace (log_event (CursorClose k) w) @ evs\<rparr>"
      "set evs \<subseteq> CursorClose ` set ks" by blast
    then have "w' = w\<lparr>trace := trace w @ (CursorClose k # evs)\<rparr> \<and> set (CursorClose k # evs) \<subseteq> CursorClose ` set (k # ks)"
      by (auto simp: log_event_def)
    then show ?thesis by blast
  next
    case (Some e)
    with Cons.prems have "w' = w\<lparr>trace := trace w @ [CursorClose k]\<rparr>"
      by (simp add: call_cursor_close_def log_event_def)
    then have "w' = w\<lparr>trace := trace w @ [CursorClose k]\<rparr> \<and> set [CursorClose k] \<subseteq> CursorClose ` set (k # ks)" by simp
    then show ?thesis by blast
  qed
qed

lemma weakset_iter_log_event [simp]: "weakset_iter (log_event e w) xs = weakset_iter w xs"
  by (simp add: weakset_iter_def)

lemma weakset_iter_trace [simp]: "weakset_iter (w\<lparr>trace := t\<rparr>) xs = weakset_iter w xs"
  by (simp add: weakset_iter_def)

lemma close_client_raises:
  "owns_client c \<Longrightarrow> client_close_raises env (client c) = Some e \<Longrightarrow>
   close env c w = (Inl e, c\<lparr>closed := True\<rparr>, log_event (ClientClose (client c)) w)"
  by (simp add: close_def call_client_close_def)

lemma close_frame:
  assumes "close env c w = (r, c', w')"
  shows "c' = c\<lparr>closed := True\<rparr> \<and>
      next_ref w' = next_ref w \<and> cursor_heap w' = cursor_heap w \<and>
      take (length (trace w)) (trace w') = trace w \<and>
      (\<forall>x. ClientClose x \<in> set (new_events w w') \<longleftrightarrow> owns_client c \<and> x = client c) \<and>
      (\<forall>b. ChannelClose b \<in> set (new_events w w') \<longleftrightarrow>
            owns_bqstorage_client c \<and> bqstorage_client c = Some b \<and>
            (owns_client c \<longrightarrow> client_close_raises env (client c) = None)) \<and>
      (\<forall>k. CursorClose k \<in> set (new_events w w') \<longrightarrow> k \<in> set (weakset_iter w (cursors_created c)))"
  using assms
  by (auto simp: close_def Let_def call_client_close_def call_channel_close_def log_event_def
      new_events_def
      split: if_splits option.splits prod.splits dest!: close_cursors_frame)

lemma close_quiet:
  assumes "owns_client c \<Longrightarrow> client_close_raises env (client c) = None"
    and "owns_bqstorage_client c \<Longrightarrow>
           \<exists>b. bqstorage_client c = Some b \<and> channel_close_raises env b = None"
    and "\<forall>k\<in>set (weakset_iter w (cursors_created c)). cursor_close_raises env k = None"
  shows "close env c w = (Inr (), c\<lparr>closed := True\<rparr>,
      w\<lparr>trace := trace w
          @ (if owns_client c then [ClientClose (client c)] else [])
          @ (if owns_bqstorage_client c then [ChannelClose (the (bqstorage_client c))] else [])
          @ map CursorClose (weakset_iter w (cursors_created c))\<rparr>)"
  using assms
  by (auto simp: close_def Let_def call_client_close_def call_channel_close_def log_event_def
      close_cursors_quiet)


lemma trace_grows_trans:
  assumes "take (length (trace w)) (trace w') = trace w"
    and "take (length (trace w')) (trace w'') = trace w'"
  shows "take (length (trace w)) (trace w'') = trace w \<and>
         new_events w w'' = new_events w w' @ new_events w' w''"
proof -
  from assms(1) have a: "trace w' = trace w @ new_events w w'"
    unfolding new_events_def using append_take_drop_id[of "length (trace w)" "trace w'"] by simp
  from assms(2) have b: "trace w'' = trace w' @ new_events w' w''"
    unfolding new_events_def using append_take_drop_id[of "length (trace w')" "trace w''"] by simp
  from a b have d: "trace w'' = trace w @ (new_events w w' @ new_events w' w'')" by simp
  from d have "take (length (trace w)) (trace w'') = trace w" by simp
  moreover from d have "new_events w w'' = new_events w w' @ new_events w' w''"
    by (rule new_events_append)
  ultimately show ?thesis by blast
qed

lemma Connection_close_frame:
  assumes "Connection_close env c w = (r, c', w')"
  shows "closed c' \<and> self c' = self c \<and> client c' = client c \<and> bqstorage_client c' = bqstorage_client c \<and>
      owns_client c' = owns_client c \<and> owns_bqstorage_client c' = owns_bqstorage_client c \<and>
      cursors_created c' = cursors_created c \<and>
      take (length (trace w)) (trace w') = trace w \<and>
      (\<forall>x. ClientClose x \<in> set (new_events w w') \<longrightarrow> owns_client c \<and> x = client c)"
proof (cases "closed c")
  case True
  with assms have "c' = c" "w' = w"
    by (simp_all add: Connection_close_def raise_on_closed_def)
  with True show ?thesis by (simp add: new_events_def)
next
  case False
  with assms have "close env c w = (r, c', w')"
    by (simp add: Connection_close_def raise_on_closed_def)
  from close_frame[OF this]
  have a: "c' = c\<lparr>closed := True\<rparr>" and b: "take (length (trace w)) (trace w') = trace w"
    and d: "\<forall>x. ClientClose x \<in> set (new_events w w') \<longleftrightarrow> owns_client c \<and> x = client c"
    by blast+
  from a b d show ?thesis by simp
qed

lemma Connection_cursor_frame:
  assumes "Connection_cursor c w = (r, c', w')"
  shows "closed c' = closed c \<and> self c' = self c \<and> client c' = client c \<and> bqstorage_client c' = bqstorage_client c \<and>
      owns_client c' = owns_client c \<and> owns_bqstorage_client c' = owns_bqstorage_client c \<and>
      take (length (trace w)) (trace w') = trace w \<and>
      (\<forall>x. ClientClose x \<notin> set (new_events w w'))"
proof (cases "closed c")
  case True
  with assms have "c' = c" "w' = w"
    by (simp_all add: Connection_cursor_def raise_on_closed_def)
  then show ?thesis by (simp add: new_events_def)
next
  case False
  with assms have "c' = c\<lparr>cursors_created := weakset_add (cursors_created c) (next_ref w)\<rparr>"
    and "trace w' = trace w @ [CursorConstructed (next_ref w) (self c)]"
    by (auto simp: Connection_cursor_def raise_on_closed_def cursor_def Cursor_def)
  then show ?thesis by (simp add: new_events_def)
qed

lemma perform_frame:
  assumes "perform env st (c, w) = (c', w')"
  shows "(closed c \<longrightarrow> closed c') \<and> (st \<noteq> Close \<longrightarrow> closed c' = closed c) \<and>
      self c' = self c \<and> client c' = client c \<and> bqstorage_client c' = bqstorage_client c \<and>
      owns_client c' = owns_client c \<and> owns_bqstorage_client c' = owns_bqstorage_client c \<and>
      take (length (trace w)) (trace w') = trace w \<and>
      (\<forall>x. ClientClose x \<in> set (new_events w w') \<longrightarrow> owns_client c \<and> x = client c)"
proof (cases st)
  case Close
  with assms obtain r where "Connection_close env c w = (r, c', w')"
    by (cases "Connection_close env c w") simp
  from Connection_close_frame[OF this] Close show ?thesis by simp
next
  case Commit
  with assms have "c' = c" "w' = w"
    by (simp_all add: Connection_commit_def raise_on_closed_def commit_def split: if_splits)
  then show ?thesis by (simp add: new_events_def)
next
  case NewCursor
  with assms obtain r where "Connection_cursor c w = (r, c', w')"
    by (cases "Connection_cursor c w") simp
  from Connection_cursor_frame[OF this] show ?thesis by simp
next
  case (Reclaim k)
  with assms have "c' = c" "trace w' = trace w"
    by (auto simp: reclaim_def)
  then show ?thesis by (simp add: new_events_def)
qed

lemma run_frame:
  "run env steps (c, w) = (c', w') \<Longrightarrow>
     (closed c \<longrightarrow> closed c') \<and> (Close \<notin> set steps \<longrightarrow> closed c' = closed c) \<and>
      self c' = self c \<and> client c' = client c \<and> bqstorage_client c' = bqstorage_client c \<and>
      owns_client c' = owns_client c \<and> owns_bqstorage_client c' = owns_bqstorage_client c \<and>
      take (length (trace w)) (trace w') = trace w \<and>
      (\<forall>x. ClientClose x \<in> set (new_events w w') \<longrightarrow> owns_client c \<and> x = client c)"
proof (induction steps arbitrary: c w)
  case Nil
  then show ?case by (simp add: new_events_def)
next
  case (Cons st steps)
  obtain c1 w1 where p: "perform env st (c, w) = (c1, w1)"
    by (cases "perform env st (c, w)") blast
  with Cons.prems have r: "run env steps (c1, w1) = (c', w')" by simp
  note f1 = perform_frame[OF p]
  note f2 = Cons.IH[OF r]
  from f1 f2 have g: "take (length (trace w)) (trace w') = trace w \<and>
         new_events w w' = new_events w w1 @ new_events w1 w'"
    by (intro trace_grows_trans) simp_all
  from f1 f2 have closed_part: "(closed c \<longrightarrow> closed c') \<and> (Close \<notin> set (st # steps) \<longrightarrow> closed c' = closed c)"
    by auto
  from f1 f2 have fields: "self c' = self c \<and> client c' = client c \<and> bqstorage_client c' = bqstorage_client c \<and>
      owns_client c' = owns_client c \<and> owns_bqstorage_client c' = owns_bqstorage_client c"
    by simp
  from f1 f2 g have ev: "\<forall>x. ClientClose x \<in> set (new_events w w') \<longrightarrow> owns_client c \<and> x = client c"
    by auto
  from g closed_part fields ev show ?case by blast
qed

lemma perform_Close_closed:
  "perform env Close (c, w) = (c', w') \<Longrightarrow> closed c'"
proof -
  assume a: "perform env Close (c, w) = (c', w')"
  then obtain r where "Connection_close env c w = (r, c', w')"
    by (cases "Connection_close env c w") simp
  from Connection_close_frame[OF this] show ?thesis by simp
qed

lemma Connection_no_arguments:
  "factory_ok env (Suc 0) \<Longrightarrow> Connection env None None world0 = (owned_connection, owned_world)"
  by (simp add: Connection_def world0_def bigquery_Client_def create_bqstorage_client_def
      log_event_def Let_def owned_connection_def owned_world_def)

lemma set_weakset_iter:
  "set (weakset_iter w xs) = {k \<in> set xs. cursor_heap w k \<noteq> None}"
  by (auto simp: weakset_iter_def)

lemma Connection_supplied_client:
  "factory_ok env 7 \<Longrightarrow> Connection env (Some 7) None world0 = (supplied_connection, supplied_world)"
  by (simp add: Connection_def world0_def create_bqstorage_client_def
      log_event_def Let_def supplied_connection_def supplied_world_def)

lemma Connection_result:
  assumes "Connection env a b w = (c, w')"
  shows "self c = next_ref w \<and> \<not> closed c \<and> cursors_created c = []
    \<and> owns_client c = (a = None)
    \<and> client c = (case a of None \<Rightarrow> Suc (next_ref w) | Some cl \<Rightarrow> cl)
    \<and> owns_bqstorage_client c = (b = None \<and> factory_ok env (client c))
    \<and> (bqstorage_client c = None) = (b = None \<and> \<not> factory_ok env (client c))
    \<and> (\<forall>x. b = Some x \<longrightarrow> bqstorage_client c = Some x)
    \<and> take (length (trace w)) (trace w') = trace w
    \<and> new_events w w' =
         (case a of None \<Rightarrow> [ClientConstructed (client c)] | Some _ \<Rightarrow> [])
         @ (case b of None \<Rightarrow> [FactoryCalled (client c)] | Some _ \<Rightarrow> [])"
  using assms
  by (auto simp: Connection_def Let_def bigquery_Client_def create_bqstorage_client_def
      log_event_def new_events_def split: option.splits if_splits)

section \<open>The factory\<close>

text \<open>
  C7. For all optional arguments \<open>a\<close> and \<open>b\<close>, \<open>connect(a, b)\<close> returns exactly
  \<open>Connection(a, b)\<close>: the same connection object and the same effects on the world,
  with no further behaviour and no validation of its own.
\<close>

theorem connect_is_Connection:
  "connect env a b w = Connection env a b w"
  by (simp add: connect_def)

section \<open>The closed-connection guard\<close>

text \<open>
  C1. Once \<open>close()\<close> has been called on a connection, whatever the caller does next
  (further calls, caught exceptions, cursors being reclaimed), the connection is closed,
  and each public operation - \<open>close()\<close> itself (a second call included), \<open>commit()\<close>
  and \<open>cursor()\<close> - raises the closed-connection error with the guard's message and
  leaves the connection and the world exactly as they were: no work, no side effect.
\<close>

theorem closed_connection_rejects_every_call:
  assumes "run env steps (perform env Close (c0, w0)) = (c, w)"
  shows "closed c
    \<and> Connection_close env c w = (Inl (ClosedConnectionError ''Operating on a closed connection.''), c, w)
    \<and> Connection_commit c w = (Inl (ClosedConnectionError ''Operating on a closed connection.''), c, w)
    \<and> Connection_cursor c w = (Inl (ClosedConnectionError ''Operating on a closed connection.''), c, w)"
proof -
  obtain c1 w1 where p: "perform env Close (c0, w0) = (c1, w1)"
    by (cases "perform env Close (c0, w0)") blast
  then have "closed c1" by (rule perform_Close_closed)
  moreover from assms p have "run env steps (c1, w1) = (c, w)" by simp
  ultimately have "closed c" using run_frame by blast
  then show ?thesis
    by (simp add: Connection_close_def Connection_commit_def Connection_cursor_def
        guard_closed closed_message_def)
qed

theorem closed_connection_rejects_every_call_witness:
  "run quiet_env [Commit, Close] (perform quiet_env Close
       (\<lparr>self = 0, client = 1, bqstorage_client = Some 2, owns_client = True,
         owns_bqstorage_client = True, closed = False, cursors_created = []\<rparr>,
        \<lparr>trace = [], next_ref = 3, cursor_heap = Map.empty\<rparr>))
     = (\<lparr>self = 0, client = 1, bqstorage_client = Some 2, owns_client = True,
         owns_bqstorage_client = True, closed = True, cursors_created = []\<rparr>,
        \<lparr>trace = [ClientClose 1, ChannelClose 2], next_ref = 3, cursor_heap = Map.empty\<rparr>)
   \<and> Connection_cursor
        \<lparr>self = 0, client = 1, bqstorage_client = Some 2, owns_client = True,
         owns_bqstorage_client = True, closed = True, cursors_created = []\<rparr>
        \<lparr>trace = [ClientClose 1, ChannelClose 2], next_ref = 3, cursor_heap = Map.empty\<rparr>
     = (Inl (ClosedConnectionError ''Operating on a closed connection.''),
        \<lparr>self = 0, client = 1, bqstorage_client = Some 2, owns_client = True,
         owns_bqstorage_client = True, closed = True, cursors_created = []\<rparr>,
        \<lparr>trace = [ClientClose 1, ChannelClose 2], next_ref = 3, cursor_heap = Map.empty\<rparr>)"
proof -
  have h: "run quiet_env [Commit, Close] (perform quiet_env Close
       (\<lparr>self = 0, client = 1, bqstorage_client = Some 2, owns_client = True,
         owns_bqstorage_client = True, closed = False, cursors_created = []\<rparr>,
        \<lparr>trace = [], next_ref = 3, cursor_heap = Map.empty\<rparr>))
     = (\<lparr>self = 0, client = 1, bqstorage_client = Some 2, owns_client = True,
         owns_bqstorage_client = True, closed = True, cursors_created = []\<rparr>,
        \<lparr>trace = [ClientClose 1, ChannelClose 2], next_ref = 3, cursor_heap = Map.empty\<rparr>)"
    by (simp add: quiet_env_def Connection_close_def Connection_commit_def raise_on_closed_def
        close_def commit_def call_client_close_def call_channel_close_def log_event_def
        weakset_iter_def)
  from closed_connection_rejects_every_call[OF h] h show ?thesis by simp
qed

section \<open>commit\<close>

text \<open>
  C8. On an open connection \<open>commit()\<close> returns normally and changes nothing: the
  connection (closed flag, ownership flags, clients, cursor registry) and the world (no
  call on any client or cursor) are the ones it was called with.
\<close>

theorem commit_is_a_no_op:
  "\<not> closed c \<Longrightarrow> Connection_commit c w = (Inr (), c, w)"
  by (simp add: Connection_commit_def raise_on_closed_def commit_def)

theorem commit_is_a_no_op_witness:
  "\<not> closed (fst (Connection quiet_env None None world0))
   \<and> Connection_commit (fst (Connection quiet_env None None world0)) (snd (Connection quiet_env None None world0))
     = (Inr (),
        \<lparr>self = 0, client = 1, bqstorage_client = Some 2, owns_client = True,
          owns_bqstorage_client = True, closed = False, cursors_created = []\<rparr>,
        \<lparr>trace = [ClientConstructed 1, FactoryCalled 1], next_ref = 3, cursor_heap = Map.empty\<rparr>)"
proof -
  have c: "Connection quiet_env None None world0 =
      (\<lparr>self = 0, client = 1, bqstorage_client = Some 2, owns_client = True,
          owns_bqstorage_client = True, closed = False, cursors_created = []\<rparr>,
        \<lparr>trace = [ClientConstructed 1, FactoryCalled 1], next_ref = 3, cursor_heap = Map.empty\<rparr>)"
    by (simp add: Connection_def quiet_env_def world0_def bigquery_Client_def
        create_bqstorage_client_def log_event_def Let_def)
  have h: "\<not> closed (fst (Connection quiet_env None None world0))" by (simp add: c)
  from commit_is_a_no_op[OF h, of "snd (Connection quiet_env None None world0)"] h c
  show ?thesis by simp
qed

section \<open>What the first close closes\<close>

text \<open>
  C2, as amended. The first call to \<open>close()\<close> (the connection is open) sets \<open>closed\<close>
  to true; it invokes \<open>close\<close> on a client \<open>x\<close> exactly when it owns the primary client
  and \<open>x\<close> is that client; it closes the transport channel of a storage client \<open>b\<close>
  exactly when it owns the storage client, \<open>b\<close> is that client, and the close of the
  primary client, if one was made, returned without raising. So it never closes a client
  it did not create.
\<close>

theorem first_close_closes_owned_clients_only:
  assumes "\<not> closed c" and "Connection_close env c w = (r, c', w')"
  shows "closed c'
    \<and> (ClientClose x \<in> set (new_events w w') \<longleftrightarrow> owns_client c \<and> x = client c)
    \<and> (ChannelClose b \<in> set (new_events w w') \<longleftrightarrow>
          owns_bqstorage_client c \<and> bqstorage_client c = Some b \<and>
          (owns_client c \<longrightarrow> client_close_raises env (client c) = None))"
proof -
  from assms have "close env c w = (r, c', w')"
    by (simp add: Connection_close_def guard_open)
  from close_frame[OF this] show ?thesis by simp
qed

theorem first_close_closes_owned_clients_only_witness:
  "\<not> closed owned_connection
   \<and> Connection_close quiet_env owned_connection owned_world
       = (Inr (), owned_connection\<lparr>closed := True\<rparr>,
          owned_world\<lparr>trace := trace owned_world @ [ClientClose 1, ChannelClose 2]\<rparr>)
   \<and> ClientClose 1 \<in> set (new_events owned_world
          (owned_world\<lparr>trace := trace owned_world @ [ClientClose 1, ChannelClose 2]\<rparr>))
   \<and> ChannelClose 2 \<in> set (new_events owned_world
          (owned_world\<lparr>trace := trace owned_world @ [ClientClose 1, ChannelClose 2]\<rparr>))"
proof -
  have h1: "\<not> closed owned_connection" by (simp add: owned_connection_def)
  have h2: "Connection_close quiet_env owned_connection owned_world
       = (Inr (), owned_connection\<lparr>closed := True\<rparr>,
          owned_world\<lparr>trace := trace owned_world @ [ClientClose 1, ChannelClose 2]\<rparr>)"
    by (simp add: Connection_close_def raise_on_closed_def close_def owned_connection_def
        quiet_env_def call_client_close_def call_channel_close_def log_event_def weakset_iter_def)
  have f: "owns_client owned_connection" "client owned_connection = 1"
    "owns_bqstorage_client owned_connection" "bqstorage_client owned_connection = Some 2"
    "client_close_raises quiet_env 1 = None"
    by (simp_all add: owned_connection_def quiet_env_def)
  from first_close_closes_owned_clients_only[OF h1 h2, of 1 2] h1 h2 f show ?thesis by simp
qed

text \<open>
  The claim as stated fails where the owned primary client's \<open>close()\<close> raises: the
  connection built by \<open>Connection()\<close> owns its storage client 2, and its first
  \<open>close()\<close> leaves the channel of 2 unclosed.
\<close>

theorem channel_left_open_counterexample:
  "Connection failing_client_env None None world0 = (owned_connection, owned_world)
   \<and> \<not> closed owned_connection
   \<and> owns_bqstorage_client owned_connection
   \<and> bqstorage_client owned_connection = Some 2
   \<and> ChannelClose 2 \<notin> set (new_events owned_world
        (snd (snd (Connection_close failing_client_env owned_connection owned_world))))"
proof -
  have "Connection failing_client_env None None world0 = (owned_connection, owned_world)"
    by (rule Connection_no_arguments) (simp add: failing_client_env_def)
  moreover have "Connection_close failing_client_env owned_connection owned_world
     = (Inl (CollaboratorError ''transport down''), owned_connection\<lparr>closed := True\<rparr>,
        log_event (ClientClose 1) owned_world)"
    by (simp add: Connection_close_def raise_on_closed_def close_def owned_connection_def
        failing_client_env_def call_client_close_def)
  ultimately show ?thesis
    by (simp add: new_events_def owned_connection_def)
qed

section \<open>An owned client whose close raises\<close>

text \<open>
  C9. \<open>close()\<close> sets the closed flag before it closes anything. When the connection
  owns its primary client and that client's \<open>close()\<close> raises \<open>e\<close>, the call raises
  the same \<open>e\<close>; the only call made is the one on the primary client (the transport
  channel and the tracked cursors are left unclosed); the connection is already marked
  closed, and every later \<open>close()\<close>, \<open>commit()\<close> or \<open>cursor()\<close> on it raises the
  closed-connection error.
\<close>

theorem close_marks_closed_before_closing:
  assumes "\<not> closed c" and "owns_client c" and "client_close_raises env (client c) = Some e"
  shows "Connection_close env c w = (Inl e, c\<lparr>closed := True\<rparr>, log_event (ClientClose (client c)) w)
    \<and> new_events w (log_event (ClientClose (client c)) w) = [ClientClose (client c)]
    \<and> Connection_close env (c\<lparr>closed := True\<rparr>) w2
        = (Inl (ClosedConnectionError ''Operating on a closed connection.''), c\<lparr>closed := True\<rparr>, w2)
    \<and> Connection_commit (c\<lparr>closed := True\<rparr>) w2
        = (Inl (ClosedConnectionError ''Operating on a closed connection.''), c\<lparr>closed := True\<rparr>, w2)
    \<and> Connection_cursor (c\<lparr>closed := True\<rparr>) w2
        = (Inl (ClosedConnectionError ''Operating on a closed connection.''), c\<lparr>closed := True\<rparr>, w2)"
proof -
  from assms have "Connection_close env c w = (Inl e, c\<lparr>closed := True\<rparr>, log_event (ClientClose (client c)) w)"
    by (simp add: Connection_close_def guard_open close_client_raises)
  moreover have "new_events w (log_event (ClientClose (client c)) w) = [ClientClose (client c)]"
    by (simp add: new_events_def)
  ultimately show ?thesis
    by (simp add: Connection_close_def Connection_commit_def Connection_cursor_def
        guard_closed closed_message_def)
qed

theorem close_marks_closed_before_closing_witness:
  "Connection_close failing_client_env owned_connection owned_world
     = (Inl (CollaboratorError ''transport down''), owned_connection\<lparr>closed := True\<rparr>,
        log_event (ClientClose 1) owned_world)
   \<and> Connection_cursor (owned_connection\<lparr>closed := True\<rparr>) (log_event (ClientClose 1) owned_world)
     = (Inl (ClosedConnectionError ''Operating on a closed connection.''),
        owned_connection\<lparr>closed := True\<rparr>, log_event (ClientClose 1) owned_world)"
proof -
  have h1: "\<not> closed owned_connection" and h2: "owns_client owned_connection"
    and h3: "client_close_raises failing_client_env (client owned_connection)
              = Some (CollaboratorError ''transport down'')"
    and h4: "client owned_connection = 1"
    by (simp_all add: owned_connection_def failing_client_env_def)
  from close_marks_closed_before_closing[OF h1 h2 h3, of owned_world "log_event (ClientClose 1) owned_world"] h4
  show ?thesis by simp
qed

section \<open>The cascade over the tracked cursors\<close>

text \<open>
  C5, as amended. Whatever happens, \<open>close()\<close> invokes \<open>close()\<close> only on cursors
  that are registered and still alive when it is called: a cursor reclaimed before the
  call is absent from the cascade. When the connection is open and no \<open>close()\<close> call
  that it makes raises - the one on the primary client if owned, the one on the
  transport channel if owned, the ones on the live tracked cursors - \<open>close()\<close> returns
  normally and has invoked \<open>close()\<close> on each live tracked cursor. Nothing is asked of
  a reclaimed cursor: one whose \<open>close()\<close> would raise does not make \<open>close()\<close> fail.
\<close>

theorem close_cascades_to_live_cursors:
  assumes "Connection_close env c w = (r, c', w')"
  shows "(\<forall>k. CursorClose k \<in> set (new_events w w') \<longrightarrow>
             k \<in> set (cursors_created c) \<and> cursor_heap w k \<noteq> None)
    \<and> (\<not> closed c
        \<and> (owns_client c \<longrightarrow> client_close_raises env (client c) = None)
        \<and> (owns_bqstorage_client c \<longrightarrow>
              (\<exists>b. bqstorage_client c = Some b \<and> channel_close_raises env b = None))
        \<and> (\<forall>k\<in>set (cursors_created c). cursor_heap w k \<noteq> None \<longrightarrow> cursor_close_raises env k = None)
       \<longrightarrow> r = Inr ()
           \<and> (\<forall>k\<in>set (cursors_created c). cursor_heap w k \<noteq> None \<longrightarrow>
                 CursorClose k \<in> set (new_events w w')))"
proof -
  have part1: "\<forall>k. CursorClose k \<in> set (new_events w w') \<longrightarrow>
             k \<in> set (cursors_created c) \<and> cursor_heap w k \<noteq> None"
  proof (cases "closed c")
    case True
    with assms have "w' = w" by (simp add: Connection_close_def guard_closed)
    then show ?thesis by (simp add: new_events_def)
  next
    case False
    with assms have "close env c w = (r, c', w')" by (simp add: Connection_close_def guard_open)
    from close_frame[OF this] show ?thesis by (simp add: set_weakset_iter)
  qed
  have part2: "r = Inr () \<and> (\<forall>k\<in>set (cursors_created c). cursor_heap w k \<noteq> None \<longrightarrow>
                 CursorClose k \<in> set (new_events w w'))"
    if op: "\<not> closed c"
      and h1: "owns_client c \<longrightarrow> client_close_raises env (client c) = None"
      and h2: "owns_bqstorage_client c \<longrightarrow>
              (\<exists>b. bqstorage_client c = Some b \<and> channel_close_raises env b = None)"
      and h3: "\<forall>k\<in>set (cursors_created c). cursor_heap w k \<noteq> None \<longrightarrow> cursor_close_raises env k = None"
  proof -
    from h3 have h3': "\<forall>k\<in>set (weakset_iter w (cursors_created c)). cursor_close_raises env k = None"
      by (simp add: set_weakset_iter)
    from op assms have "close env c w = (r, c', w')" by (simp add: Connection_close_def guard_open)
    with close_quiet[of c env w] h1 h2 h3'
    have r: "r = Inr ()" and w': "trace w' = trace w
          @ (if owns_client c then [ClientClose (client c)] else [])
          @ (if owns_bqstorage_client c then [ChannelClose (the (bqstorage_client c))] else [])
          @ map CursorClose (weakset_iter w (cursors_created c))"
      by auto
    from w' have "new_events w w' = (if owns_client c then [ClientClose (client c)] else [])
          @ (if owns_bqstorage_client c then [ChannelClose (the (bqstorage_client c))] else [])
          @ map CursorClose (weakset_iter w (cursors_created c))"
      by (rule new_events_append)
    then have "\<forall>k\<in>set (cursors_created c). cursor_heap w k \<noteq> None \<longrightarrow>
                 CursorClose k \<in> set (new_events w w')"
      by (simp add: set_weakset_iter)
    with r show ?thesis by blast
  qed
  from part1 part2 show ?thesis by blast
qed

theorem close_cascades_to_live_cursors_witness:
  "Connection_close stale_cursor_env two_cursors_connection (reclaim 3 two_cursors_world)
     = (Inr (), two_cursors_connection\<lparr>closed := True\<rparr>,
        (reclaim 3 two_cursors_world)\<lparr>trace := trace two_cursors_world
            @ [ClientClose 1, ChannelClose 2, CursorClose 4]\<rparr>)
   \<and> cursor_heap (reclaim 3 two_cursors_world) 3 = None
   \<and> cursor_heap (reclaim 3 two_cursors_world) 4 \<noteq> None
   \<and> cursor_close_raises stale_cursor_env 3 \<noteq> None
   \<and> CursorClose 4 \<in> set (new_events (reclaim 3 two_cursors_world)
        ((reclaim 3 two_cursors_world)\<lparr>trace := trace two_cursors_world
            @ [ClientClose 1, ChannelClose 2, CursorClose 4]\<rparr>))
   \<and> CursorClose 3 \<notin> set (new_events (reclaim 3 two_cursors_world)
        ((reclaim 3 two_cursors_world)\<lparr>trace := trace two_cursors_world
            @ [ClientClose 1, ChannelClose 2, CursorClose 4]\<rparr>))"
proof -
  have h: "Connection_close stale_cursor_env two_cursors_connection (reclaim 3 two_cursors_world)
     = (Inr (), two_cursors_connection\<lparr>closed := True\<rparr>,
        (reclaim 3 two_cursors_world)\<lparr>trace := trace two_cursors_world
            @ [ClientClose 1, ChannelClose 2, CursorClose 4]\<rparr>)"
    by (simp add: Connection_close_def raise_on_closed_def close_def two_cursors_connection_def
        owned_connection_def two_cursors_world_def stale_cursor_env_def reclaim_def
        call_client_close_def call_channel_close_def call_cursor_close_def log_event_def
        weakset_iter_def)
  have f: "\<not> closed two_cursors_connection" "owns_client two_cursors_connection"
    "client two_cursors_connection = 1" "client_close_raises stale_cursor_env 1 = None"
    "owns_bqstorage_client two_cursors_connection"
    "bqstorage_client two_cursors_connection = Some 2"
    "channel_close_raises stale_cursor_env 2 = None"
    "cursors_created two_cursors_connection = [3, 4]"
    "cursor_heap (reclaim 3 two_cursors_world) 3 = None"
    "cursor_heap (reclaim 3 two_cursors_world) 4 \<noteq> None"
    "cursor_close_raises stale_cursor_env 4 = None"
    "cursor_close_raises stale_cursor_env 3 \<noteq> None"
    by (simp_all add: two_cursors_connection_def owned_connection_def stale_cursor_env_def
        two_cursors_world_def reclaim_def)
  from close_cascades_to_live_cursors[OF h] h f show ?thesis by auto
qed

text \<open>
  The claim as stated fails where the owned primary client's \<open>close()\<close> raises: cursor
  4 is registered and alive, and \<open>close()\<close> never invokes its \<open>close()\<close>.
\<close>

theorem live_cursor_left_open_counterexample:
  "run failing_client_env [NewCursor, NewCursor] (owned_connection, owned_world)
     = (two_cursors_connection, two_cursors_world)
   \<and> \<not> closed two_cursors_connection
   \<and> 4 \<in> set (cursors_created two_cursors_connection)
   \<and> cursor_heap two_cursors_world 4 \<noteq> None
   \<and> CursorClose 4 \<notin> set (new_events two_cursors_world
        (snd (snd (Connection_close failing_client_env two_cursors_connection two_cursors_world))))"
proof -
  have "run failing_client_env [NewCursor, NewCursor] (owned_connection, owned_world)
     = (two_cursors_connection, two_cursors_world)"
    by (simp add: Connection_cursor_def raise_on_closed_def cursor_def Cursor_def
      owned_connection_def owned_world_def two_cursors_connection_def two_cursors_world_def
      weakset_add_def log_event_def)
  moreover have "Connection_close failing_client_env two_cursors_connection two_cursors_world
     = (Inl (CollaboratorError ''transport down''), two_cursors_connection\<lparr>closed := True\<rparr>,
        log_event (ClientClose 1) two_cursors_world)"
    by (simp add: Connection_close_def raise_on_closed_def close_def two_cursors_connection_def
        owned_connection_def failing_client_env_def call_client_close_def)
  ultimately show ?thesis
    by (simp add: new_events_def two_cursors_connection_def owned_connection_def
        two_cursors_world_def)
qed

section \<open>cursor\<close>

text \<open>
  C6. On an open connection, two successive calls to \<open>cursor()\<close> both return a cursor,
  and the two cursors are distinct objects. Each was constructed by that call for this
  connection and is registered when the call returns; after the second call both are
  live members of the registry, which is what a following \<open>close()\<close> iterates.
\<close>

theorem cursor_registers_each_new_cursor:
  assumes "\<not> closed c"
    and "Connection_cursor c w = (r1, c1, w1)"
    and "Connection_cursor c1 w1 = (r2, c2, w2)"
  shows "\<exists>k1 k2. r1 = Inr k1 \<and> r2 = Inr k2 \<and> k1 \<noteq> k2
    \<and> CursorConstructed k1 (self c) \<in> set (new_events w w1)
    \<and> CursorConstructed k2 (self c) \<in> set (new_events w1 w2)
    \<and> cursor_heap w1 k1 = Some (self c) \<and> cursor_heap w2 k2 = Some (self c)
    \<and> k1 \<in> set (weakset_iter w1 (cursors_created c1))
    \<and> k1 \<in> set (weakset_iter w2 (cursors_created c2))
    \<and> k2 \<in> set (weakset_iter w2 (cursors_created c2))"
proof -
  from assms(1,2) have a: "r1 = Inr (next_ref w)"
    "c1 = c\<lparr>cursors_created := weakset_add (cursors_created c) (next_ref w)\<rparr>"
    "w1 = (log_event (CursorConstructed (next_ref w) (self c)) w)
        \<lparr>next_ref := Suc (next_ref w), cursor_heap := (cursor_heap w)(next_ref w \<mapsto> self c)\<rparr>"
    by (auto simp: Connection_cursor_def guard_open cursor_def Cursor_def)
  from a(2) assms(1) have op1: "\<not> closed c1" by simp
  from op1 assms(3) have b: "r2 = Inr (next_ref w1)"
    "c2 = c1\<lparr>cursors_created := weakset_add (cursors_created c1) (next_ref w1)\<rparr>"
    "w2 = (log_event (CursorConstructed (next_ref w1) (self c1)) w1)
        \<lparr>next_ref := Suc (next_ref w1), cursor_heap := (cursor_heap w1)(next_ref w1 \<mapsto> self c1)\<rparr>"
    by (auto simp: Connection_cursor_def guard_open cursor_def Cursor_def)
  have n: "next_ref w1 = Suc (next_ref w)" "self c1 = self c" using a by simp_all
  have "next_ref w \<noteq> next_ref w1" using n by simp
  moreover have "CursorConstructed (next_ref w) (self c) \<in> set (new_events w w1)"
    using a(3) by (simp add: new_events_def)
  moreover have "CursorConstructed (next_ref w1) (self c) \<in> set (new_events w1 w2)"
    using b(3) n by (simp add: new_events_def)
  moreover have "cursor_heap w1 (next_ref w) = Some (self c)" using a(3) by simp
  moreover have "cursor_heap w2 (next_ref w1) = Some (self c)" using b(3) n by simp
  moreover have "next_ref w \<in> set (weakset_iter w1 (cursors_created c1))"
    using a by (simp add: set_weakset_iter weakset_add_def)
  moreover have "next_ref w \<in> set (weakset_iter w2 (cursors_created c2))"
    using a(2,3) b(2,3) n by (simp add: set_weakset_iter weakset_add_def)
  moreover have "next_ref w1 \<in> set (weakset_iter w2 (cursors_created c2))"
    using b(2,3) by (simp add: set_weakset_iter weakset_add_def)
  ultimately show ?thesis using a(1) b(1) by blast
qed

theorem cursor_registers_each_new_cursor_witness:
  "\<not> closed owned_connection
   \<and> Connection_cursor owned_connection owned_world
       = (Inr 3, owned_connection\<lparr>cursors_created := [3]\<rparr>,
          \<lparr>trace = [ClientConstructed 1, FactoryCalled 1, CursorConstructed 3 0], next_ref = 4,
            cursor_heap = [3 \<mapsto> 0]\<rparr>)
   \<and> Connection_cursor (owned_connection\<lparr>cursors_created := [3]\<rparr>)
          \<lparr>trace = [ClientConstructed 1, FactoryCalled 1, CursorConstructed 3 0], next_ref = 4,
            cursor_heap = [3 \<mapsto> 0]\<rparr>
       = (Inr 4, two_cursors_connection, two_cursors_world)
   \<and> weakset_iter two_cursors_world (cursors_created two_cursors_connection) = [3, 4]
   \<and> (\<exists>k1 k2. (Inr 3 :: exn + ref) = Inr k1 \<and> (Inr 4 :: exn + ref) = Inr k2 \<and> k1 \<noteq> k2
        \<and> k1 \<in> set (weakset_iter two_cursors_world (cursors_created two_cursors_connection))
        \<and> k2 \<in> set (weakset_iter two_cursors_world (cursors_created two_cursors_connection)))"
proof -
  have h1: "\<not> closed owned_connection" by (simp add: owned_connection_def)
  have h2: "Connection_cursor owned_connection owned_world
       = (Inr 3, owned_connection\<lparr>cursors_created := [3]\<rparr>,
          \<lparr>trace = [ClientConstructed 1, FactoryCalled 1, CursorConstructed 3 0], next_ref = 4,
            cursor_heap = [3 \<mapsto> 0]\<rparr>)"
    by (simp add: Connection_cursor_def raise_on_closed_def cursor_def Cursor_def
      owned_connection_def owned_world_def weakset_add_def log_event_def)
  have h3: "Connection_cursor (owned_connection\<lparr>cursors_created := [3]\<rparr>)
          \<lparr>trace = [ClientConstructed 1, FactoryCalled 1, CursorConstructed 3 0], next_ref = 4,
            cursor_heap = [3 \<mapsto> 0]\<rparr>
       = (Inr 4, two_cursors_connection, two_cursors_world)"
    by (simp add: Connection_cursor_def raise_on_closed_def cursor_def Cursor_def
      owned_connection_def two_cursors_connection_def two_cursors_world_def
      weakset_add_def log_event_def)
  have h4: "weakset_iter two_cursors_world (cursors_created two_cursors_connection) = [3, 4]"
    by (simp add: weakset_iter_def two_cursors_world_def two_cursors_connection_def)
  from cursor_registers_each_new_cursor[OF h1 h2 h3] h1 h2 h3 h4 show ?thesis by blast
qed

section \<open>Construction and ownership\<close>

text \<open>
  C3. When the primary client is omitted, the constructor builds a default client with
  \<open>bigquery.Client()\<close>, uses it, and sets the ownership flag. When the caller supplies a
  client, the constructor uses that very client, builds none, and clears the ownership
  flag; and then nothing the caller does with the connection afterwards - any sequence
  of \<open>close()\<close>, \<open>commit()\<close> and \<open>cursor()\<close> calls, cursors being reclaimed in between -
  makes the connection invoke \<open>close\<close> on a client.
\<close>

theorem primary_client_ownership:
  assumes "Connection env a b w = (c, w')" and "run env steps (c, w') = (c1, w1)"
  shows "(a = None \<longrightarrow> owns_client c \<and> ClientConstructed (client c) \<in> set (new_events w w'))
    \<and> (\<forall>cl. a = Some cl \<longrightarrow>
          client c = cl \<and> \<not> owns_client c
          \<and> (\<forall>x. ClientConstructed x \<notin> set (new_events w w'))
          \<and> (\<forall>x. ClientClose x \<notin> set (new_events w w1)))"
proof -
  note r = Connection_result[OF assms(1)]
  note f = run_frame[OF assms(2)]
  from r f have g: "new_events w w1 = new_events w w' @ new_events w' w1"
    using trace_grows_trans[of w w' w1] by simp
  have none: "a = None \<longrightarrow> owns_client c \<and> ClientConstructed (client c) \<in> set (new_events w w')"
    using r by simp
  have some: "client c = cl \<and> \<not> owns_client c
          \<and> (\<forall>x. ClientConstructed x \<notin> set (new_events w w'))
          \<and> (\<forall>x. ClientClose x \<notin> set (new_events w w1))" if a: "a = Some cl" for cl
  proof -
    from r a have 1: "client c = cl" "\<not> owns_client c" by simp_all
    from r a have 2: "\<forall>x. ClientConstructed x \<notin> set (new_events w w')"
      by (auto split: option.splits)
    from r a have 3: "\<forall>x. ClientClose x \<notin> set (new_events w w')"
      by (auto split: option.splits)
    from f 1 have 4: "\<forall>x. ClientClose x \<notin> set (new_events w' w1)" by blast
    from 3 4 g have "\<forall>x. ClientClose x \<notin> set (new_events w w1)" by simp
    with 1 2 show ?thesis by blast
  qed
  from none some show ?thesis by blast
qed

theorem primary_client_ownership_witness:
  "Connection quiet_env None None world0 = (owned_connection, owned_world)
   \<and> owns_client owned_connection
   \<and> ClientConstructed (client owned_connection) \<in> set (new_events world0 owned_world)
   \<and> Connection quiet_env (Some 7) None world0 = (supplied_connection, supplied_world)
   \<and> run quiet_env [NewCursor, Close, Close] (supplied_connection, supplied_world)
       = (supplied_connection\<lparr>closed := True, cursors_created := [2]\<rparr>,
          \<lparr>trace = [FactoryCalled 7, CursorConstructed 2 0, ChannelClose 1, CursorClose 2],
            next_ref = 3, cursor_heap = [2 \<mapsto> 0]\<rparr>)
   \<and> client supplied_connection = 7 \<and> \<not> owns_client supplied_connection
   \<and> ClientClose 7 \<notin> set (new_events world0
          \<lparr>trace = [FactoryCalled 7, CursorConstructed 2 0, ChannelClose 1, CursorClose 2],
            next_ref = 3, cursor_heap = [2 \<mapsto> 0]\<rparr>)"
proof -
  have h1: "Connection quiet_env None None world0 = (owned_connection, owned_world)"
    by (rule Connection_no_arguments) (simp add: quiet_env_def)
  have h1': "run quiet_env [] (owned_connection, owned_world) = (owned_connection, owned_world)"
    by simp
  have h2: "Connection quiet_env (Some 7) None world0 = (supplied_connection, supplied_world)"
    by (rule Connection_supplied_client) (simp add: quiet_env_def)
  have h3: "run quiet_env [NewCursor, Close, Close] (supplied_connection, supplied_world)
       = (supplied_connection\<lparr>closed := True, cursors_created := [2]\<rparr>,
          \<lparr>trace = [FactoryCalled 7, CursorConstructed 2 0, ChannelClose 1, CursorClose 2],
            next_ref = 3, cursor_heap = [2 \<mapsto> 0]\<rparr>)"
    by (simp add: Connection_cursor_def Connection_close_def raise_on_closed_def cursor_def
        Cursor_def close_def supplied_connection_def supplied_world_def quiet_env_def
        weakset_add_def weakset_iter_def log_event_def call_channel_close_def
        call_cursor_close_def)
  from primary_client_ownership[OF h1 h1'] primary_client_ownership[OF h2 h3] h1 h2 h3
  show ?thesis by simp
qed

text \<open>
  C4. When the storage client is omitted, the constructor calls the factory of the
  primary client it uses. The factory's outcome reaches the connection only as its
  result: a client, or \<open>None\<close> when instantiation failed; the constructor returns a
  connection in both cases, and it owns the storage client exactly when the result is
  not \<open>None\<close>. When the caller supplies a storage client, the constructor stores it,
  does not call the factory, and clears the ownership flag.
\<close>

theorem accelerated_client_ownership:
  assumes "Connection env a b w = (c, w')"
  shows "(b = None \<longrightarrow>
           FactoryCalled (client c) \<in> set (new_events w w')
           \<and> (bqstorage_client c \<noteq> None) = factory_ok env (client c)
           \<and> owns_bqstorage_client c = (bqstorage_client c \<noteq> None))
    \<and> (\<forall>x. b = Some x \<longrightarrow>
           bqstorage_client c = Some x \<and> \<not> owns_bqstorage_client c
           \<and> (\<forall>y. FactoryCalled y \<notin> set (new_events w w')))"
proof -
  note r = Connection_result[OF assms]
  have none: "b = None \<longrightarrow>
           FactoryCalled (client c) \<in> set (new_events w w')
           \<and> (bqstorage_client c \<noteq> None) = factory_ok env (client c)
           \<and> owns_bqstorage_client c = (bqstorage_client c \<noteq> None)"
    using r by auto
  have some: "\<forall>x. b = Some x \<longrightarrow>
           bqstorage_client c = Some x \<and> \<not> owns_bqstorage_client c
           \<and> (\<forall>y. FactoryCalled y \<notin> set (new_events w w'))"
    using r by (auto split: option.splits)
  from none some show ?thesis by blast
qed

theorem accelerated_client_ownership_witness:
  "Connection quiet_env None None world0 = (owned_connection, owned_world)
   \<and> bqstorage_client owned_connection = Some 2 \<and> owns_bqstorage_client owned_connection
   \<and> Connection no_storage_env None None world0
       = (owned_connection\<lparr>bqstorage_client := None, owns_bqstorage_client := False\<rparr>,
          owned_world\<lparr>next_ref := 2\<rparr>)
   \<and> \<not> factory_ok no_storage_env 1
   \<and> Connection quiet_env None (Some 9) world0
       = (owned_connection\<lparr>bqstorage_client := Some 9, owns_bqstorage_client := False\<rparr>,
          \<lparr>trace = [ClientConstructed 1], next_ref = 2, cursor_heap = Map.empty\<rparr>)
   \<and> FactoryCalled 1 \<in> set (new_events world0 owned_world)
   \<and> FactoryCalled 1 \<notin> set (new_events world0
          \<lparr>trace = [ClientConstructed 1], next_ref = 2, cursor_heap = Map.empty\<rparr>)"
proof -
  have h1: "Connection quiet_env None None world0 = (owned_connection, owned_world)"
    by (rule Connection_no_arguments) (simp add: quiet_env_def)
  have h2: "Connection no_storage_env None None world0
       = (owned_connection\<lparr>bqstorage_client := None, owns_bqstorage_client := False\<rparr>,
          owned_world\<lparr>next_ref := 2\<rparr>)"
    by (simp add: Connection_def world0_def bigquery_Client_def create_bqstorage_client_def
      log_event_def Let_def owned_connection_def owned_world_def no_storage_env_def)
  have h3: "Connection quiet_env None (Some 9) world0
       = (owned_connection\<lparr>bqstorage_client := Some 9, owns_bqstorage_client := False\<rparr>,
          \<lparr>trace = [ClientConstructed 1], next_ref = 2, cursor_heap = Map.empty\<rparr>)"
    by (simp add: Connection_def world0_def bigquery_Client_def
      log_event_def Let_def owned_connection_def quiet_env_def)
  have f: "client owned_connection = 1" "bqstorage_client owned_connection = Some 2"
    "owns_bqstorage_client owned_connection" "\<not> factory_ok no_storage_env 1"
    by (simp_all add: owned_connection_def no_storage_env_def)
  from accelerated_client_ownership[OF h1] accelerated_client_ownership[OF h2]
    accelerated_client_ownership[OF h3] h1 h2 h3 f
  show ?thesis by simp
qed

text \<open>
  C10. With a supplied primary client \<open>cl\<close> and no storage client, the constructor
  calls the factory on \<open>cl\<close> itself, so \<open>cl\<close> has to offer it. The connection does not
  own \<open>cl\<close>, and owns the storage client exactly when the factory produced one: it can
  own the storage client without owning the primary client. Closing such a connection,
  at any point while it is still open, invokes the close of the storage client's
  transport channel and no client's \<open>close\<close>; when the factory failed, it closes no
  channel either.
\<close>

theorem factory_is_called_on_a_supplied_client:
  assumes "Connection env (Some cl) None w = (c, w')"
    and "Close \<notin> set steps" and "run env steps (c, w') = (c1, w1)"
    and "Connection_close env c1 w1 = (r, c2, w2)"
  shows "FactoryCalled cl \<in> set (new_events w w')
    \<and> client c = cl \<and> \<not> owns_client c
    \<and> owns_bqstorage_client c = factory_ok env cl
    \<and> (\<forall>x. ClientClose x \<notin> set (new_events w1 w2))
    \<and> (factory_ok env cl \<longrightarrow>
          (\<exists>b. bqstorage_client c = Some b \<and> ChannelClose b \<in> set (new_events w1 w2)))
    \<and> (\<not> factory_ok env cl \<longrightarrow>
          bqstorage_client c = None \<and> (\<forall>b. ChannelClose b \<notin> set (new_events w1 w2)))"
proof -
  note r = Connection_result[OF assms(1)]
  note f = run_frame[OF assms(3)]
  from r have c: "client c = cl" "\<not> owns_client c" "owns_bqstorage_client c = factory_ok env cl"
    "\<not> closed c" "FactoryCalled cl \<in> set (new_events w w')"
    "(bqstorage_client c = None) = (\<not> factory_ok env cl)"
    by simp_all
  from f c assms(2) have c1: "\<not> closed c1" "\<not> owns_client c1"
    "owns_bqstorage_client c1 = factory_ok env cl" "bqstorage_client c1 = bqstorage_client c"
    by simp_all
  from c1(1) assms(4) have "close env c1 w1 = (r, c2, w2)"
    by (simp add: Connection_close_def guard_open)
  note k = close_frame[OF this]
  from k c1 have 1: "\<forall>x. ClientClose x \<notin> set (new_events w1 w2)" by simp
  from k c1 have 2: "\<forall>b. ChannelClose b \<in> set (new_events w1 w2) \<longleftrightarrow>
      factory_ok env cl \<and> bqstorage_client c = Some b" by simp
  from c(6) 2 have 3: "factory_ok env cl \<longrightarrow>
          (\<exists>b. bqstorage_client c = Some b \<and> ChannelClose b \<in> set (new_events w1 w2))"
    by auto
  from c(6) 2 have 4: "\<not> factory_ok env cl \<longrightarrow>
          bqstorage_client c = None \<and> (\<forall>b. ChannelClose b \<notin> set (new_events w1 w2))"
    by auto
  from c 1 3 4 show ?thesis by blast
qed

theorem factory_is_called_on_a_supplied_client_witness:
  "Connection quiet_env (Some 7) None world0 = (supplied_connection, supplied_world)
   \<and> Close \<notin> set [NewCursor, Commit]
   \<and> run quiet_env [NewCursor, Commit] (supplied_connection, supplied_world)
       = (supplied_connection\<lparr>cursors_created := [2]\<rparr>,
          \<lparr>trace = [FactoryCalled 7, CursorConstructed 2 0], next_ref = 3,
            cursor_heap = [2 \<mapsto> 0]\<rparr>)
   \<and> Connection_close quiet_env (supplied_connection\<lparr>cursors_created := [2]\<rparr>)
          \<lparr>trace = [FactoryCalled 7, CursorConstructed 2 0], next_ref = 3,
            cursor_heap = [2 \<mapsto> 0]\<rparr>
       = (Inr (), supplied_connection\<lparr>closed := True, cursors_created := [2]\<rparr>,
          \<lparr>trace = [FactoryCalled 7, CursorConstructed 2 0, ChannelClose 1, CursorClose 2],
            next_ref = 3, cursor_heap = [2 \<mapsto> 0]\<rparr>)
   \<and> \<not> owns_client supplied_connection \<and> owns_bqstorage_client supplied_connection
   \<and> factory_ok quiet_env 7
   \<and> FactoryCalled 7 \<in> set (new_events world0 supplied_world)"
proof -
  have h1: "Connection quiet_env (Some 7) None world0 = (supplied_connection, supplied_world)"
    by (rule Connection_supplied_client) (simp add: quiet_env_def)
  have h2: "Close \<notin> set [NewCursor, Commit]" by simp
  have h3: "run quiet_env [NewCursor, Commit] (supplied_connection, supplied_world)
       = (supplied_connection\<lparr>cursors_created := [2]\<rparr>,
          \<lparr>trace = [FactoryCalled 7, CursorConstructed 2 0], next_ref = 3,
            cursor_heap = [2 \<mapsto> 0]\<rparr>)"
    by (simp add: Connection_cursor_def Connection_commit_def raise_on_closed_def cursor_def
        commit_def Cursor_def supplied_connection_def supplied_world_def
        weakset_add_def log_event_def)
  have h4: "Connection_close quiet_env (supplied_connection\<lparr>cursors_created := [2]\<rparr>)
          \<lparr>trace = [FactoryCalled 7, CursorConstructed 2 0], next_ref = 3,
            cursor_heap = [2 \<mapsto> 0]\<rparr>
       = (Inr (), supplied_connection\<lparr>closed := True, cursors_created := [2]\<rparr>,
          \<lparr>trace = [FactoryCalled 7, CursorConstructed 2 0, ChannelClose 1, CursorClose 2],
            next_ref = 3, cursor_heap = [2 \<mapsto> 0]\<rparr>)"
    by (simp add: Connection_close_def raise_on_closed_def close_def supplied_connection_def
        quiet_env_def weakset_iter_def log_event_def call_channel_close_def
        call_cursor_close_def)
  have f: "factory_ok quiet_env 7" by (simp add: quiet_env_def)
  from factory_is_called_on_a_supplied_client[OF h1 h2 h3 h4] h1 h2 h3 h4 f
  show ?thesis by simp
qed

end
